theory Spec2Isabelle
  imports Main "HOL-Library.Word"
begin

unbundle bit_operations_syntax

section \<open>The blink program of CompactArduino\<close>

text \<open>
  The repository holds the last stage of a code-size tutorial for the Arduino UNO
  (ATmega328P): one \<^verbatim>\<open>main\<close> that configures pin PB5 as an output and then toggles
  it forever, in two spellings.
  \<^verbatim>\<open>
  int main()                          int main()
  {                                   {
    DDRB |= (1 << PB5);                 DDRB |= (1 << 5);
    while (1)                           while (1)
    {                                   {
      PORTB ^= (1 << PB5);                PORTB ^= (1 << 5);
      _delay_ms(1000);                    _delay_ms(1000);
    }                                   }
  }                                   }
  \<close>
  Both are in \<^verbatim>\<open>blink_162_0.ino\<close>. The tutorial text that leads up to them is
  \<^verbatim>\<open>part_000\<close>.
\<close>

subsection \<open>Registers, time and the observable trace\<close>

text \<open>
  \<^verbatim>\<open>DDRB\<close> and \<^verbatim>\<open>PORTB\<close> are memory-mapped bytes (\<^verbatim>\<open>volatile uint8_t\<close>).
  With avr-gcc an \<^verbatim>\<open>int\<close> has 16 bits, so the operand \<^verbatim>\<open>(1 << 5)\<close> is a 16-bit
  value and the compound assignments compute in 16 bits before they store a byte. The
  sign of \<^verbatim>\<open>int\<close> plays no part: the shift stays below bit 15, and or, exclusive
  or and the truncation to a byte work on the bit pattern.
\<close>

type_synonym uint8_t = "8 word"
type_synonym c_int = "16 word"

text \<open>
  What the outside can see of a run: every store to one of the two registers, with the
  byte stored, and every pause, with its length in milliseconds.
\<close>

datatype event = Write_DDRB uint8_t | Write_PORTB uint8_t | Delay_ms nat

text \<open>
  The machine state: the two registers, the time spent so far in the delay routine, and
  the events so far, oldest first. Register accesses are taken to cost no time; only
  \<^verbatim>\<open>_delay_ms\<close> advances \<open>clock\<close>.
\<close>

record mcu =
  DDRB :: uint8_t
  PORTB :: uint8_t
  clock :: nat
  trace :: "event list"

definition write_DDRB :: "uint8_t \<Rightarrow> mcu \<Rightarrow> mcu" where
  "write_DDRB v s = s\<lparr>DDRB := v, trace := trace s @ [Write_DDRB v]\<rparr>"

definition write_PORTB :: "uint8_t \<Rightarrow> mcu \<Rightarrow> mcu" where
  "write_PORTB v s = s\<lparr>PORTB := v, trace := trace s @ [Write_PORTB v]\<rparr>"

text \<open>
  Modelled from the spec: \<^verbatim>\<open>_delay_ms\<close> comes from \<^verbatim>\<open>util/delay.h\<close>, which is not
  among the repository's files. The spec (section 5) describes it as a busy wait that
  blocks the single thread for the specified duration and does nothing else. The
  program only ever passes the whole number 1000, so the duration is a \<open>nat\<close>, in
  milliseconds.
\<close>

definition delay_ms :: "nat \<Rightarrow> mcu \<Rightarrow> mcu" where
  "delay_ms ms s = s\<lparr>clock := clock s + ms, trace := trace s @ [Delay_ms ms]\<rparr>"

subsection \<open>The compound assignments\<close>

text \<open>
  \<^verbatim>\<open>r |= m\<close> and \<^verbatim>\<open>r ^= m\<close> for a byte \<open>r\<close> and an \<^verbatim>\<open>int\<close> \<open>m\<close>: the byte is
  promoted to \<^verbatim>\<open>int\<close>, combined, and the result is truncated to a byte on the store.
\<close>

definition or_assign :: "uint8_t \<Rightarrow> c_int \<Rightarrow> uint8_t" where
  "or_assign r m = ucast ((ucast r :: c_int) OR m)"

definition xor_assign :: "uint8_t \<Rightarrow> c_int \<Rightarrow> uint8_t" where
  "xor_assign r m = ucast ((ucast r :: c_int) XOR m)"

subsection \<open>The first variant: \<^verbatim>\<open>(1 << PB5)\<close>\<close>

text \<open>
  Modelled from the spec: the macro \<^verbatim>\<open>PB5\<close> comes from the device header behind
  \<^verbatim>\<open>avr/io.h\<close>, which is not among the repository's files. The spec treats the two
  programs as one behaviour, and the tutorial text (part_000, line 64) names the pin
  "PB5" and sets "the fifth bit" of \<^verbatim>\<open>DDRB\<close> for it with
  \<^verbatim>\<open>DDRB |= (1 << 5)\<close>: the macro is the bit number 5.
\<close>

definition PB5 :: nat where
  "PB5 = 5"

definition setup_PB5 :: "mcu \<Rightarrow> mcu" where
  "setup_PB5 s = write_DDRB (or_assign (DDRB s) (push_bit PB5 1)) s"

definition toggle_PB5 :: "mcu \<Rightarrow> mcu" where
  "toggle_PB5 s = write_PORTB (xor_assign (PORTB s) (push_bit PB5 1)) s"

definition loop_body_PB5 :: "mcu \<Rightarrow> mcu" where
  "loop_body_PB5 s = delay_ms 1000 (toggle_PB5 s)"

subsection \<open>The second variant: \<^verbatim>\<open>(1 << 5)\<close>\<close>

definition setup_lit5 :: "mcu \<Rightarrow> mcu" where
  "setup_lit5 s = write_DDRB (or_assign (DDRB s) (push_bit 5 1)) s"

definition toggle_lit5 :: "mcu \<Rightarrow> mcu" where
  "toggle_lit5 s = write_PORTB (xor_assign (PORTB s) (push_bit 5 1)) s"

definition loop_body_lit5 :: "mcu \<Rightarrow> mcu" where
  "loop_body_lit5 s = delay_ms 1000 (toggle_lit5 s)"

subsection \<open>The loop \<^verbatim>\<open>while (1) { body }\<close> and \<^verbatim>\<open>main\<close>\<close>

text \<open>
  One turn of the loop: the condition is the constant \<^verbatim>\<open>1\<close>, tested against zero as
  C does; when it holds the body runs, otherwise the loop is left (\<open>None\<close>).
\<close>

definition while_1_step :: "(mcu \<Rightarrow> mcu) \<Rightarrow> mcu \<Rightarrow> mcu option" where
  "while_1_step body s = (if (1 :: c_int) \<noteq> 0 then Some (body s) else None)"

text \<open>
  The loop as a partial function: \<open>Some s\<close> is the state in which the loop is left,
  \<open>None\<close> means that it is never left.
\<close>

partial_function (option) while_1 :: "(mcu \<Rightarrow> mcu) \<Rightarrow> mcu \<Rightarrow> mcu option" where
  "while_1 body s =
     (case while_1_step body s of Some s' \<Rightarrow> while_1 body s' | None \<Rightarrow> Some s)"

text \<open>
  The same loop cut off after \<open>n\<close> turns, to look at a run in progress: \<open>Running s\<close>
  is the state after \<open>n\<close> full turns, \<open>Returned s\<close> says the loop was left before.
\<close>

datatype outcome = Running mcu | Returned mcu

fun state_of :: "outcome \<Rightarrow> mcu" where
  "state_of (Running s) = s"
| "state_of (Returned s) = s"

fun while_1_fuel :: "(mcu \<Rightarrow> mcu) \<Rightarrow> nat \<Rightarrow> mcu \<Rightarrow> outcome" where
  "while_1_fuel body 0 s = Running s"
| "while_1_fuel body (Suc n) s =
     (case while_1_step body s of Some s' \<Rightarrow> while_1_fuel body n s' | None \<Rightarrow> Returned s)"

text \<open>
  \<^verbatim>\<open>main\<close>: the direction write, then the loop. Falling off the end of \<^verbatim>\<open>main\<close>
  after the loop would return to the C runtime.
\<close>

definition main_PB5 :: "mcu \<Rightarrow> mcu option" where
  "main_PB5 s = while_1 loop_body_PB5 (setup_PB5 s)"

definition main_PB5_fuel :: "nat \<Rightarrow> mcu \<Rightarrow> outcome" where
  "main_PB5_fuel n s = while_1_fuel loop_body_PB5 n (setup_PB5 s)"

definition main_lit5 :: "mcu \<Rightarrow> mcu option" where
  "main_lit5 s = while_1 loop_body_lit5 (setup_lit5 s)"

definition main_lit5_fuel :: "nat \<Rightarrow> mcu \<Rightarrow> outcome" where
  "main_lit5_fuel n s = while_1_fuel loop_body_lit5 n (setup_lit5 s)"

section \<open>Vocabulary for the observations\<close>

text \<open>
  The events a run adds to the trace between two of its states, and what can be read off
  them: which events store to \<^verbatim>\<open>DDRB\<close>, which are pauses, and the level of the
  output bit (bit 5 of the last byte stored to \<^verbatim>\<open>PORTB\<close>) sampled once per
  millisecond of pause. \<open>blink_events p n\<close> lists the events of \<open>n\<close> turns of a
  toggle followed by a pause of 1000, from the port value \<open>p\<close>.
\<close>

definition emitted :: "mcu \<Rightarrow> mcu \<Rightarrow> event list" where
  "emitted s s' = drop (length (trace s)) (trace s')"

fun is_DDRB_write :: "event \<Rightarrow> bool" where
  "is_DDRB_write (Write_DDRB v) = True"
| "is_DDRB_write (Write_PORTB v) = False"
| "is_DDRB_write (Delay_ms d) = False"

fun is_delay :: "event \<Rightarrow> bool" where
  "is_delay (Write_DDRB v) = False"
| "is_delay (Write_PORTB v) = False"
| "is_delay (Delay_ms d) = True"

fun waveform :: "bool \<Rightarrow> event list \<Rightarrow> bool list" where
  "waveform l [] = []"
| "waveform l (Write_DDRB v # es) = waveform l es"
| "waveform l (Write_PORTB v # es) = waveform (bit v 5) es"
| "waveform l (Delay_ms d # es) = replicate d l @ waveform l es"

fun blink_events :: "uint8_t \<Rightarrow> nat \<Rightarrow> event list" where
  "blink_events p 0 = []"
| "blink_events p (Suc n) = Write_PORTB (p XOR 32) # Delay_ms 1000 # blink_events (p XOR 32) n"

subsection \<open>States used in the examples\<close>

text \<open>
  The ATmega328P clears \<^verbatim>\<open>DDRB\<close> and \<^verbatim>\<open>PORTB\<close> on reset: \<open>power_on\<close>.
  \<open>warm_start\<close> has the same registers but some time and an event behind it, and
  \<open>busy_port\<close> has other bits of both registers set.
\<close>

definition power_on :: mcu where
  "power_on = \<lparr>DDRB = 0, PORTB = 0, clock = 0, trace = []\<rparr>"

definition warm_start :: mcu where
  "warm_start = \<lparr>DDRB = 0, PORTB = 0, clock = 7, trace = [Delay_ms 7]\<rparr>"

definition busy_port :: mcu where
  "busy_port = \<lparr>DDRB = 0x0F, PORTB = 0xA5, clock = 0, trace = []\<rparr>"

section \<open>Basic facts\<close>

lemma or_assign_bit5: "or_assign r (push_bit 5 1) = r OR 32"
  unfolding or_assign_def
  by (rule bit_word_eqI) (auto simp add: bit_simps)

lemma xor_assign_bit5: "xor_assign r (push_bit 5 1) = r XOR 32"
  unfolding xor_assign_def
  by (rule bit_word_eqI) (auto simp add: bit_simps)

lemma or_assign_32: "or_assign r 32 = r OR 32"
  using or_assign_bit5 [of r] by simp

lemma xor_assign_32: "xor_assign r 32 = r XOR 32"
  using xor_assign_bit5 [of r] by simp

lemma setup_PB5_eq:
  "setup_PB5 s = s\<lparr>DDRB := DDRB s OR 32, trace := trace s @ [Write_DDRB (DDRB s OR 32)]\<rparr>"
  by (simp add: setup_PB5_def PB5_def write_DDRB_def or_assign_32)

lemma toggle_PB5_eq:
  "toggle_PB5 s = s\<lparr>PORTB := PORTB s XOR 32, trace := trace s @ [Write_PORTB (PORTB s XOR 32)]\<rparr>"
  by (simp add: toggle_PB5_def PB5_def write_PORTB_def xor_assign_32)

lemma loop_body_PB5_eq:
  "loop_body_PB5 s = s\<lparr>PORTB := PORTB s XOR 32, clock := clock s + 1000,
      trace := trace s @ [Write_PORTB (PORTB s XOR 32), Delay_ms 1000]\<rparr>"
  by (simp add: loop_body_PB5_def toggle_PB5_eq delay_ms_def)

lemma while_1_step_Some: "while_1_step body s = Some (body s)"
  by (simp add: while_1_step_def)

lemma while_1_fuel_Running: "while_1_fuel body n s = Running ((body ^^ n) s)"
  by (induction n arbitrary: s) (simp_all add: while_1_step_Some funpow_swap1)

lemma while_1_never_Some: "while_1 body s \<noteq> Some t"
proof
  assume ret: "while_1 body s = Some t"
  show False
  proof (rule while_1.raw_induct [where P = "\<lambda>_ _ _. False", OF _ ret])
    fix w :: "(mcu \<Rightarrow> mcu) \<Rightarrow> mcu \<Rightarrow> mcu option" and b s' y
    assume IH: "\<And>b s y. w b s = Some y \<Longrightarrow> False"
      and unfolded: "(case while_1_step b s' of None \<Rightarrow> Some s' | Some s'' \<Rightarrow> w b s'') = Some y"
    from unfolded have "w b (b s') = Some y"
      by (simp add: while_1_step_Some)
    then show False by (rule IH)
  qed
qed

lemma while_1_None: "while_1 body s = None"
  using while_1_never_Some [of body s] by (cases "while_1 body s") auto

lemma turns_DDRB: "DDRB ((loop_body_PB5 ^^ n) s) = DDRB s"
  by (induction n) (simp_all add: loop_body_PB5_eq)

lemma turns_clock: "clock ((loop_body_PB5 ^^ n) s) = clock s + 1000 * n"
  by (induction n) (simp_all add: loop_body_PB5_eq)

lemma turns_PORTB: "PORTB ((loop_body_PB5 ^^ n) s) = (if even n then PORTB s else PORTB s XOR 32)"
  by (induction n) (simp_all add: loop_body_PB5_eq xor.assoc)

lemma turns_trace: "trace ((loop_body_PB5 ^^ n) s) = trace s @ blink_events (PORTB s) n"
proof (induction n arbitrary: s)
  case 0
  show ?case by simp
next
  case (Suc n)
  have "trace ((loop_body_PB5 ^^ Suc n) s) = trace ((loop_body_PB5 ^^ n) (loop_body_PB5 s))"
    by (simp add: funpow_swap1)
  also have "\<dots> = trace (loop_body_PB5 s) @ blink_events (PORTB (loop_body_PB5 s)) n"
    by (rule Suc.IH)
  also have "\<dots> = trace s @ blink_events (PORTB s) (Suc n)"
    by (simp add: loop_body_PB5_eq)
  finally show ?case .
qed

lemma bit5_xor_32: "bit (p XOR 32 :: uint8_t) 5 = (\<not> bit p 5)"
  by (simp add: bit_simps)

lemma bit5_or_32: "bit (p OR 32 :: uint8_t) 5"
  by (simp add: bit_simps)

lemma bit_32_iff: "bit (32 :: uint8_t) i = (i = 5)"
proof -
  have "(32 :: uint8_t) = 2 ^ 5"
    by simp
  moreover have "bit (2 ^ 5 :: uint8_t) i = (i = 5)"
    by (auto simp only: bit_exp_iff possible_bit_word len_bit0 len_num1)
  ultimately show ?thesis
    by (simp only:)
qed

lemma other_bits_xor_32: "i \<noteq> 5 \<Longrightarrow> bit (p XOR 32 :: uint8_t) i = bit p i"
  by (simp only: bit_xor_iff bit_32_iff) simp

lemma other_bits_or_32: "i \<noteq> 5 \<Longrightarrow> bit (p OR 32 :: uint8_t) i = bit p i"
  by (simp only: bit_or_iff bit_32_iff) simp

lemma or_32_absorb:
  assumes "bit (p :: uint8_t) 5"
  shows "p OR 32 = p"
proof (rule bit_word_eqI)
  fix n
  show "bit (p OR 32) n = bit p n"
    using assms by (cases "n = 5") (simp_all only: bit_or_iff bit_32_iff, simp_all)
qed

lemma concat_map_upt_Suc:
  "concat (map f [0..<Suc n]) = f 0 @ concat (map (\<lambda>k. f (Suc k)) [0..<n])"
proof -
  have e: "[0..<Suc n] = 0 # map Suc [0..<n]"
    by (simp only: map_Suc_upt upt_conv_Cons [OF zero_less_Suc])
  show ?thesis
    unfolding e by (simp add: comp_def)
qed

lemma main_PB5_fuel_eq: "main_PB5_fuel n s = Running ((loop_body_PB5 ^^ n) (setup_PB5 s))"
  by (simp add: main_PB5_fuel_def while_1_fuel_Running)

lemma after_DDRB: "DDRB (state_of (main_PB5_fuel n s)) = DDRB s OR 32"
  by (simp add: main_PB5_fuel_eq turns_DDRB setup_PB5_eq)

lemma after_PORTB:
  "PORTB (state_of (main_PB5_fuel n s)) = (if even n then PORTB s else PORTB s XOR 32)"
  by (simp add: main_PB5_fuel_eq turns_PORTB setup_PB5_eq)

lemma after_clock: "clock (state_of (main_PB5_fuel n s)) = clock s + 1000 * n"
  by (simp add: main_PB5_fuel_eq turns_clock setup_PB5_eq)

lemma after_trace:
  "trace (state_of (main_PB5_fuel n s)) =
     trace s @ Write_DDRB (DDRB s OR 32) # blink_events (PORTB s) n"
  by (simp add: main_PB5_fuel_eq turns_trace setup_PB5_eq)

lemma emitted_main:
  "emitted s (state_of (main_PB5_fuel n s)) = Write_DDRB (DDRB s OR 32) # blink_events (PORTB s) n"
  by (simp add: emitted_def after_trace)

lemma blink_no_DDRB_write: "filter is_DDRB_write (blink_events p n) = []"
  by (induction n arbitrary: p) simp_all

lemma blink_delays: "filter is_delay (blink_events p n) = replicate n (Delay_ms 1000)"
  by (induction n arbitrary: p) simp_all

lemma waveform_blink:
  "waveform l (blink_events p n) = concat (map (\<lambda>k. replicate 1000 (bit p 5 = odd k)) [0..<n])"
proof (induction n arbitrary: p l)
  case 0
  show ?case by simp
next
  case (Suc n)
  define f where "f = (\<lambda>k::nat. replicate 1000 (bit p 5 = odd k))"
  have f0: "f 0 = replicate 1000 (bit (p XOR 32) 5)"
    by (simp add: f_def bit5_xor_32)
  have fS: "(\<lambda>k. f (Suc k)) = (\<lambda>k. replicate 1000 (bit (p XOR 32) 5 = odd k))"
    by (auto simp add: f_def bit5_xor_32 fun_eq_iff)
  have "waveform l (blink_events p (Suc n)) = f 0 @ concat (map (\<lambda>k. f (Suc k)) [0..<n])"
    unfolding f0 fS by (simp add: Suc.IH)
  also have "\<dots> = concat (map f [0..<Suc n])"
    by (rule concat_map_upt_Suc [symmetric])
  finally show ?case
    unfolding f_def .
qed

section \<open>Two runs traced by hand\<close>

text \<open>
  From the reset state three turns of the loop leave the pin high at 3000 ms; from
  \<open>busy_port\<close> the other bits of both registers ride along unchanged. Both spellings
  of the program give the same run.
\<close>

lemma power_on_three_turns:
  "main_PB5_fuel 3 power_on = Running
     \<lparr>DDRB = 32, PORTB = 32, clock = 3000,
      trace = [Write_DDRB 32, Write_PORTB 32, Delay_ms 1000, Write_PORTB 0, Delay_ms 1000,
               Write_PORTB 32, Delay_ms 1000]\<rparr>"
  by code_simp

lemma busy_port_two_turns:
  "main_PB5_fuel 2 busy_port = Running
     \<lparr>DDRB = 0x2F, PORTB = 0xA5, clock = 2000,
      trace = [Write_DDRB 0x2F, Write_PORTB 0x85, Delay_ms 1000,
               Write_PORTB 0xA5, Delay_ms 1000]\<rparr>"
  by code_simp

lemma lit5_busy_port_two_turns:
  "main_lit5_fuel 2 busy_port = Running
     \<lparr>DDRB = 0x2F, PORTB = 0xA5, clock = 2000,
      trace = [Write_DDRB 0x2F, Write_PORTB 0x85, Delay_ms 1000,
               Write_PORTB 0xA5, Delay_ms 1000]\<rparr>"
  by code_simp

section \<open>The claims\<close>

text \<open>
  In what follows \<open>state_of (main_PB5_fuel n s)\<close> is the state of the first variant
  started in \<open>s\<close>, after the direction write and \<open>n\<close> complete turns of the loop, and
  \<open>emitted s s'\<close> are the events the run produced on the way from \<open>s\<close> to \<open>s'\<close>.
\<close>

text \<open>
  C1. For every initial state, after the direction write the level of bit 5 of
  \<^verbatim>\<open>PORTB\<close> alternates with each turn of the loop: after \<open>n\<close> turns it is the initial
  level exclusive-or the parity of \<open>n\<close>. Each level is held for one pause of 1000: the
  clock stands at \<open>1000 * n\<close> past its start, and the level sampled once per
  millisecond is, during turn \<open>k\<close>, 1000 samples of the initial level flipped \<open>k + 1\<close>
  times. Two turns later the port holds the same value and exactly 2000 have passed:
  the period is 2000, 1000 high and 1000 low.
\<close>

theorem blink_alternates_with_period_2000:
  "bit (PORTB (state_of (main_PB5_fuel n s))) 5 = (bit (PORTB s) 5 \<noteq> odd n)
   \<and> clock (state_of (main_PB5_fuel n s)) = clock s + 1000 * n
   \<and> waveform (bit (PORTB s) 5) (emitted s (state_of (main_PB5_fuel n s))) =
       concat (map (\<lambda>k. replicate 1000 (bit (PORTB s) 5 = odd k)) [0..<n])
   \<and> PORTB (state_of (main_PB5_fuel (n + 2) s)) = PORTB (state_of (main_PB5_fuel n s))
   \<and> clock (state_of (main_PB5_fuel (n + 2) s)) = clock (state_of (main_PB5_fuel n s)) + 2000"
proof -
  have "bit (PORTB (state_of (main_PB5_fuel n s))) 5 = (bit (PORTB s) 5 \<noteq> odd n)"
    by (simp add: after_PORTB bit5_xor_32)
  moreover have "clock (state_of (main_PB5_fuel n s)) = clock s + 1000 * n"
    by (rule after_clock)
  moreover have "waveform (bit (PORTB s) 5) (emitted s (state_of (main_PB5_fuel n s))) =
       concat (map (\<lambda>k. replicate 1000 (bit (PORTB s) 5 = odd k)) [0..<n])"
    by (simp add: emitted_main waveform_blink)
  moreover have "PORTB (state_of (main_PB5_fuel (n + 2) s)) = PORTB (state_of (main_PB5_fuel n s))"
    by (simp add: after_PORTB)
  moreover have "clock (state_of (main_PB5_fuel (n + 2) s)) =
      clock (state_of (main_PB5_fuel n s)) + 2000"
    by (simp add: after_clock)
  ultimately show ?thesis by blast
qed

text \<open>
  C2. The two variants, the one written with \<^verbatim>\<open>(1 << PB5)\<close> and the one written with
  \<^verbatim>\<open>(1 << 5)\<close>, are observably equivalent: their direction writes and their loop
  bodies are the same state transformers, so from the same initial state they reach the
  same state after any number of turns, with the same trace of register writes and
  pauses, and neither returns.
\<close>

theorem variants_equivalent:
  "setup_PB5 = setup_lit5 \<and> loop_body_PB5 = loop_body_lit5
   \<and> main_PB5_fuel n s = main_lit5_fuel n s
   \<and> trace (state_of (main_PB5_fuel n s)) = trace (state_of (main_lit5_fuel n s))
   \<and> main_PB5 s = main_lit5 s"
proof -
  have direction: "setup_PB5 = setup_lit5"
    by (simp add: fun_eq_iff setup_PB5_def setup_lit5_def PB5_def)
  have "toggle_PB5 = toggle_lit5"
    by (simp add: fun_eq_iff toggle_PB5_def toggle_lit5_def PB5_def)
  then have body: "loop_body_PB5 = loop_body_lit5"
    by (simp add: fun_eq_iff loop_body_PB5_def loop_body_lit5_def)
  from direction body show ?thesis
    by (simp add: main_PB5_fuel_def main_lit5_fuel_def main_PB5_def main_lit5_def)
qed

text \<open>
  C3. In every execution bit 5 of \<^verbatim>\<open>DDRB\<close> is set exactly once, before the first
  toggle of bit 5 of \<^verbatim>\<open>PORTB\<close>, and \<^verbatim>\<open>DDRB\<close> is never written again: the
  events of a run of any length start with the one store to \<^verbatim>\<open>DDRB\<close>, whose byte has
  bit 5 set; everything after it is toggles and pauses, none of them a store to
  \<^verbatim>\<open>DDRB\<close>; and bit 5 of \<^verbatim>\<open>DDRB\<close> is set from then on.
\<close>

theorem direction_set_once_before_toggling:
  "emitted s (state_of (main_PB5_fuel n s)) =
     Write_DDRB (DDRB s OR 32) # blink_events (PORTB s) n
   \<and> bit (DDRB s OR 32) 5
   \<and> filter is_DDRB_write (blink_events (PORTB s) n) = []
   \<and> length (filter is_DDRB_write (emitted s (state_of (main_PB5_fuel n s)))) = 1
   \<and> bit (DDRB (state_of (main_PB5_fuel n s))) 5"
  by (simp add: emitted_main blink_no_DDRB_write bit5_or_32 after_DDRB)

text \<open>
  C4. The program never terminates: \<^verbatim>\<open>main\<close> returns from no initial state; one turn
  of the \<^verbatim>\<open>while (1)\<close> loop has a successor in every state \<open>t\<close>, so in every
  reachable one; with any number \<open>n\<close> of turns the run is still inside the loop; and one
  more turn is one more toggle and pause.
\<close>

theorem main_never_returns:
  "main_PB5 s = None
   \<and> while_1_step loop_body_PB5 t = Some (loop_body_PB5 t)
   \<and> main_PB5_fuel n s = Running (state_of (main_PB5_fuel n s))
   \<and> state_of (main_PB5_fuel (Suc n) s) = loop_body_PB5 (state_of (main_PB5_fuel n s))"
  by (simp add: main_PB5_def while_1_None while_1_step_Some main_PB5_fuel_eq)

text \<open>
  C5. Each turn of the loop performs exactly two actions, in this order: it inverts bit 5
  of \<^verbatim>\<open>PORTB\<close>, then it pauses for 1000. After the first action \<^verbatim>\<open>PORTB\<close> holds
  its old byte with bit 5 flipped, that byte has been stored once, and no time has
  passed; the second action adds 1000 to the clock and one pause to the trace and
  leaves the registers alone. So the state after the turn is the state before it with
  bit 5 of \<^verbatim>\<open>PORTB\<close> inverted, the clock 1000 later and exactly these two events
  added, and nothing else changed. The turn reads nothing but \<^verbatim>\<open>PORTB\<close>, and no other
  length of pause occurs in any run: the pauses of \<open>n\<close> turns are \<open>n\<close> pauses of 1000.
\<close>

theorem loop_body_toggles_then_delays:
  "loop_body_PB5 s = delay_ms 1000 (toggle_PB5 s)
   \<and> toggle_PB5 s =
       s\<lparr>PORTB := PORTB s XOR 32, trace := trace s @ [Write_PORTB (PORTB s XOR 32)]\<rparr>
   \<and> bit (PORTB (toggle_PB5 s)) 5 = (\<not> bit (PORTB s) 5)
   \<and> clock (toggle_PB5 s) = clock s
   \<and> loop_body_PB5 s =
       s\<lparr>PORTB := PORTB s XOR 32, clock := clock s + 1000,
         trace := trace s @ [Write_PORTB (PORTB s XOR 32), Delay_ms 1000]\<rparr>
   \<and> loop_body_PB5 s = delay_ms 1000 (write_PORTB (PORTB s XOR 32) s)
   \<and> PORTB (loop_body_PB5 s) = PORTB s XOR 32
   \<and> bit (PORTB (loop_body_PB5 s)) 5 = (\<not> bit (PORTB s) 5)
   \<and> bit (PORTB s XOR 32) 5 = (\<not> bit (PORTB s) 5)
   \<and> emitted s (loop_body_PB5 s) = [Write_PORTB (PORTB s XOR 32), Delay_ms 1000]
   \<and> clock (loop_body_PB5 s) = clock s + 1000
   \<and> DDRB (loop_body_PB5 s) = DDRB s
   \<and> filter is_delay (emitted s (state_of (main_PB5_fuel n s))) = replicate n (Delay_ms 1000)"
proof -
  have order: "loop_body_PB5 s = delay_ms 1000 (toggle_PB5 s)"
    by (simp add: loop_body_PB5_def)
  have first: "toggle_PB5 s =
      s\<lparr>PORTB := PORTB s XOR 32, trace := trace s @ [Write_PORTB (PORTB s XOR 32)]\<rparr>"
    by (rule toggle_PB5_eq)
  have flipped: "bit (PORTB (toggle_PB5 s)) 5 = (\<not> bit (PORTB s) 5)"
    by (simp add: toggle_PB5_eq bit5_xor_32)
  have no_time: "clock (toggle_PB5 s) = clock s"
    by (simp add: toggle_PB5_eq)
  have whole: "loop_body_PB5 s =
      s\<lparr>PORTB := PORTB s XOR 32, clock := clock s + 1000,
        trace := trace s @ [Write_PORTB (PORTB s XOR 32), Delay_ms 1000]\<rparr>"
    by (rule loop_body_PB5_eq)
  have as_calls: "loop_body_PB5 s = delay_ms 1000 (write_PORTB (PORTB s XOR 32) s)"
    by (simp add: loop_body_PB5_eq delay_ms_def write_PORTB_def)
  have port: "PORTB (loop_body_PB5 s) = PORTB s XOR 32"
    by (simp add: loop_body_PB5_eq)
  have level: "bit (PORTB (loop_body_PB5 s)) 5 = (\<not> bit (PORTB s) 5)"
    by (simp add: loop_body_PB5_eq bit5_xor_32)
  have word: "bit (PORTB s XOR 32) 5 = (\<not> bit (PORTB s) 5)"
    by (rule bit5_xor_32)
  have events: "emitted s (loop_body_PB5 s) = [Write_PORTB (PORTB s XOR 32), Delay_ms 1000]"
    by (simp add: loop_body_PB5_eq emitted_def)
  have time: "clock (loop_body_PB5 s) = clock s + 1000"
    by (simp add: loop_body_PB5_eq)
  have direction: "DDRB (loop_body_PB5 s) = DDRB s"
    by (simp add: loop_body_PB5_eq)
  have pauses: "filter is_delay (emitted s (state_of (main_PB5_fuel n s))) =
      replicate n (Delay_ms 1000)"
    by (simp add: emitted_main blink_delays)
  from order first flipped no_time whole as_calls port level word events time direction pauses
  show ?thesis
    by (intro conjI)
qed

text \<open>
  C7. The program is deterministic and reads no input: two runs that start with the same
  \<^verbatim>\<open>DDRB\<close> and \<^verbatim>\<open>PORTB\<close>, whatever else differs between the two starting states,
  produce the same sequence of register writes and pauses and hold the same registers
  after every number of turns.
\<close>

theorem main_deterministic:
  assumes "DDRB s = DDRB t" and "PORTB s = PORTB t"
  shows "emitted s (state_of (main_PB5_fuel n s)) = emitted t (state_of (main_PB5_fuel n t))
   \<and> DDRB (state_of (main_PB5_fuel n s)) = DDRB (state_of (main_PB5_fuel n t))
   \<and> PORTB (state_of (main_PB5_fuel n s)) = PORTB (state_of (main_PB5_fuel n t))
   \<and> main_PB5 s = main_PB5 t"
  using assms by (simp add: emitted_main after_DDRB after_PORTB main_PB5_def while_1_None)

theorem main_deterministic_witness:
  "DDRB power_on = DDRB warm_start \<and> PORTB power_on = PORTB warm_start
   \<and> clock power_on \<noteq> clock warm_start
   \<and> emitted warm_start (state_of (main_PB5_fuel 2 warm_start)) =
       [Write_DDRB 32, Write_PORTB 32, Delay_ms 1000, Write_PORTB 0, Delay_ms 1000]
   \<and> emitted power_on (state_of (main_PB5_fuel 2 power_on)) =
       emitted warm_start (state_of (main_PB5_fuel 2 warm_start))"
proof -
  have d: "DDRB power_on = DDRB warm_start"
    by code_simp
  have p: "PORTB power_on = PORTB warm_start"
    by code_simp
  have c: "clock power_on \<noteq> clock warm_start"
    by code_simp
  have e: "emitted warm_start (state_of (main_PB5_fuel 2 warm_start)) =
       [Write_DDRB 32, Write_PORTB 32, Delay_ms 1000, Write_PORTB 0, Delay_ms 1000]"
    by code_simp
  from main_deterministic [OF d p, of 2] d p c e show ?thesis
    by simp
qed

text \<open>
  C8. Frame: the program only ever changes bit 5 of \<^verbatim>\<open>DDRB\<close> and bit 5 of
  \<^verbatim>\<open>PORTB\<close>. For every other bit position \<open>i\<close>, the direction write keeps bit \<open>i\<close>
  of \<^verbatim>\<open>DDRB\<close> and all of \<^verbatim>\<open>PORTB\<close>, the toggle keeps bit \<open>i\<close> of \<^verbatim>\<open>PORTB\<close> and all
  of \<^verbatim>\<open>DDRB\<close>, the pause keeps both registers, and so after any number of turns, and
  also in the middle of the next turn, bit \<open>i\<close> of both registers is what it was at the
  start.
\<close>

theorem only_bit5_modified:
  assumes "i \<noteq> 5"
  shows "bit (DDRB (setup_PB5 s)) i = bit (DDRB s) i
   \<and> PORTB (setup_PB5 s) = PORTB s
   \<and> bit (PORTB (toggle_PB5 s)) i = bit (PORTB s) i
   \<and> DDRB (toggle_PB5 s) = DDRB s
   \<and> PORTB (delay_ms d s) = PORTB s \<and> DDRB (delay_ms d s) = DDRB s
   \<and> bit (DDRB (state_of (main_PB5_fuel n s))) i = bit (DDRB s) i
   \<and> bit (PORTB (state_of (main_PB5_fuel n s))) i = bit (PORTB s) i
   \<and> bit (DDRB (toggle_PB5 (state_of (main_PB5_fuel n s)))) i = bit (DDRB s) i
   \<and> bit (PORTB (toggle_PB5 (state_of (main_PB5_fuel n s)))) i = bit (PORTB s) i"
  using assms
  by (simp add: setup_PB5_eq toggle_PB5_eq delay_ms_def after_DDRB after_PORTB
      other_bits_xor_32 other_bits_or_32)

theorem only_bit5_modified_witness:
  "(7::nat) \<noteq> 5
   \<and> bit (PORTB busy_port) 7
   \<and> bit (DDRB (state_of (main_PB5_fuel 3 busy_port))) 7 = bit (DDRB busy_port) 7
   \<and> bit (PORTB (state_of (main_PB5_fuel 3 busy_port))) 7 = bit (PORTB busy_port) 7
   \<and> bit (PORTB (toggle_PB5 (state_of (main_PB5_fuel 3 busy_port)))) 7 =
       bit (PORTB busy_port) 7"
proof -
  have i: "(7::nat) \<noteq> 5"
    by simp
  have b: "bit (PORTB busy_port) 7"
    by code_simp
  from only_bit5_modified [OF i, of busy_port 0 3] i b show ?thesis
    by simp
qed

text \<open>
  C9. Phase at start-up: the loop toggles, it does not write a fixed level, so the first
  level it drives is the complement of the initial bit 5 of \<^verbatim>\<open>PORTB\<close>; from the
  reset value 0 the first turn drives the line high. The first store to \<^verbatim>\<open>PORTB\<close>
  is the initial byte with bit 5 flipped, and that is the level after one turn.
\<close>

theorem first_level_is_complement:
  "emitted s (state_of (main_PB5_fuel 1 s)) =
     [Write_DDRB (DDRB s OR 32), Write_PORTB (PORTB s XOR 32), Delay_ms 1000]
   \<and> bit (PORTB s XOR 32) 5 = (\<not> bit (PORTB s) 5)
   \<and> bit (PORTB (state_of (main_PB5_fuel 1 s))) 5 = (\<not> bit (PORTB s) 5)
   \<and> bit (PORTB (state_of (main_PB5_fuel 1 power_on))) 5"
proof -
  have "bit (PORTB (state_of (main_PB5_fuel 1 power_on))) 5 = (\<not> bit (PORTB power_on) 5)"
    by (simp add: after_PORTB bit5_xor_32)
  moreover have "\<not> bit (PORTB power_on) 5"
    by (simp add: power_on_def)
  ultimately show ?thesis
    by (simp add: emitted_main after_PORTB bit5_xor_32)
qed

text \<open>
  C10. The direction write is idempotent: in a state whose \<^verbatim>\<open>DDRB\<close> already has
  bit 5 set, \<^verbatim>\<open>DDRB |= (1 << 5)\<close>, in either spelling, leaves \<^verbatim>\<open>DDRB\<close> as it is
  (and touches neither \<^verbatim>\<open>PORTB\<close> nor the clock); so a second direction write after
  the first changes no register.
\<close>

theorem setup_idempotent:
  assumes "bit (DDRB s) 5"
  shows "DDRB (setup_PB5 s) = DDRB s \<and> DDRB (setup_lit5 s) = DDRB s
   \<and> PORTB (setup_PB5 s) = PORTB s \<and> clock (setup_PB5 s) = clock s
   \<and> DDRB (setup_PB5 (setup_PB5 t)) = DDRB (setup_PB5 t)
   \<and> PORTB (setup_PB5 (setup_PB5 t)) = PORTB (setup_PB5 t)"
  using or_32_absorb [OF assms] or_32_absorb [OF bit5_or_32, of "DDRB t"]
  by (simp add: setup_PB5_eq setup_lit5_def write_DDRB_def or_assign_32)

theorem setup_idempotent_witness:
  "bit (DDRB (setup_PB5 power_on)) 5
   \<and> DDRB (setup_PB5 power_on) = 32
   \<and> DDRB (setup_PB5 (setup_PB5 power_on)) = DDRB (setup_PB5 power_on)"
proof -
  have b: "bit (DDRB (setup_PB5 power_on)) 5"
    by code_simp
  have v: "DDRB (setup_PB5 power_on) = 32"
    by code_simp
  from setup_idempotent [OF b] b v show ?thesis
    by simp
qed

end
